theory Spec2Isabelle
  imports Complex_Main
begin

section \<open>Rectangle\<close>

text \<open>
  \<^verbatim>\<open>function Rectangle(width, height) {
    return { width, height, getArea() { return width * height; } };
  }\<close>
  The returned object has two data properties and one method. The method is a closure
  over the two parameters of the constructor call, not over the properties of the
  object, so it is modelled as a function stored in the record. The number type is
  left open: only its multiplication is used.
\<close>

record 'a rectangle =
  width :: 'a
  height :: 'a
  getArea :: "unit \<Rightarrow> 'a"

definition Rectangle :: "'a::times \<Rightarrow> 'a \<Rightarrow> 'a rectangle" where
  "Rectangle w h = \<lparr>width = w, height = h, getArea = (\<lambda>_. w * h)\<rparr>"


section \<open>Values of the host language used by the selector builder\<close>

subsection \<open>Strings, arrays of strings\<close>

text \<open>
  A string of the program is a \<^typ>\<open>string\<close>; one \<^typ>\<open>char\<close> stands for one code unit
  in the range U+0000 to U+00FF. \<open>join\<close> is \<^verbatim>\<open>Array.prototype.join\<close> on an array of
  strings: the elements, with the separator between neighbours.
\<close>

fun join :: "string \<Rightarrow> string list \<Rightarrow> string" where
  "join sep [] = []"
| "join sep [x] = x"
| "join sep (x # y # ys) = x @ sep @ join sep (y # ys)"

subsection \<open>Conversion of a string to a number\<close>

text \<open>
  The guards of the builder compare \<^verbatim>\<open>this.order[0]\<close> with a number by \<^verbatim>\<open>>\<close>.
  When the left operand is a string (or an array, which is first turned into the
  string \<^verbatim>\<open>join(',')\<close>) the language converts it with \<^verbatim>\<open>StringToNumber\<close>: white
  space is trimmed at both ends, the empty string is 0, and the rest has to be a
  \<^verbatim>\<open>StrNumericLiteral\<close> (a signed decimal literal with optional fraction and
  exponent, \<^verbatim>\<open>Infinity\<close>, or an unsigned binary, octal or hexadecimal integer);
  anything else is \<^verbatim>\<open>NaN\<close>.

  \<open>Finite q\<close> carries the mathematical value \<open>q\<close> of the literal. The number the
  program sees is the double nearest to \<open>q\<close>; the comparison below accounts for
  that rounding. (For a literal of more than 20 significant digits the language lets
  an implementation round from the first 20; the model rounds the exact value, as
  the common engines do.)
\<close>

datatype jsnum = NaN | NegInfinity | Finite rat | PosInfinity

definition isStrWhiteSpaceChar :: "char \<Rightarrow> bool" where
  "isStrWhiteSpaceChar c \<longleftrightarrow> (of_char c :: nat) \<in> {9, 10, 11, 12, 13, 32, 160}"

definition trimString :: "string \<Rightarrow> string" where
  "trimString t = rev (dropWhile isStrWhiteSpaceChar (rev (dropWhile isStrWhiteSpaceChar t)))"

definition isDecimalDigit :: "char \<Rightarrow> bool" where
  "isDecimalDigit c \<longleftrightarrow> 48 \<le> (of_char c :: nat) \<and> (of_char c :: nat) \<le> 57"

definition isBinaryDigit :: "char \<Rightarrow> bool" where
  "isBinaryDigit c \<longleftrightarrow> 48 \<le> (of_char c :: nat) \<and> (of_char c :: nat) \<le> 49"

definition isOctalDigit :: "char \<Rightarrow> bool" where
  "isOctalDigit c \<longleftrightarrow> 48 \<le> (of_char c :: nat) \<and> (of_char c :: nat) \<le> 55"

definition isHexDigit :: "char \<Rightarrow> bool" where
  "isHexDigit c \<longleftrightarrow> isDecimalDigit c
     \<or> (97 \<le> (of_char c :: nat) \<and> (of_char c :: nat) \<le> 102)
     \<or> (65 \<le> (of_char c :: nat) \<and> (of_char c :: nat) \<le> 70)"

definition digitValue :: "char \<Rightarrow> int" where
  "digitValue c =
     (if isDecimalDigit c then of_char c - 48
      else if 97 \<le> (of_char c :: nat) then of_char c - 87
      else of_char c - 55)"

definition digitsValue :: "int \<Rightarrow> string \<Rightarrow> int" where
  "digitsValue base ds = foldl (\<lambda>acc c. acc * base + digitValue c) 0 ds"

definition decimalDigits :: "string \<Rightarrow> int option" where
  "decimalDigits ds =
     (if ds \<noteq> [] \<and> list_all isDecimalDigit ds then Some (digitsValue 10 ds) else None)"

definition signedInteger :: "string \<Rightarrow> int option" where
  "signedInteger r =
     (case r of
        [] \<Rightarrow> None
      | c # ds \<Rightarrow>
          if c = CHR ''+'' then decimalDigits ds
          else if c = CHR ''-'' then map_option uminus (decimalDigits ds)
          else decimalDigits r)"

text \<open>The optional exponent part: \<open>Some 0\<close> when absent, \<open>None\<close> when malformed.\<close>

definition exponentPart :: "string \<Rightarrow> int option" where
  "exponentPart r =
     (case r of
        [] \<Rightarrow> Some 0
      | c # r' \<Rightarrow> if c = CHR ''e'' \<or> c = CHR ''E'' then signedInteger r' else None)"

definition scale10 :: "int \<Rightarrow> int \<Rightarrow> rat" where
  "scale10 d e = (if 0 \<le> e then of_int d * 10 ^ nat e else of_int d / 10 ^ nat (- e))"

definition strUnsignedDecimalLiteral :: "string \<Rightarrow> jsnum" where
  "strUnsignedDecimalLiteral u =
     (if u = ''Infinity'' then PosInfinity
      else
        let ip = takeWhile isDecimalDigit u;
            r = dropWhile isDecimalDigit u;
            hasDot = (r \<noteq> [] \<and> hd r = CHR ''.'');
            fp = (if hasDot then takeWhile isDecimalDigit (tl r) else []);
            r2 = (if hasDot then dropWhile isDecimalDigit (tl r) else r)
        in if ip = [] \<and> fp = [] then NaN
           else (case exponentPart r2 of
                   None \<Rightarrow> NaN
                 | Some e \<Rightarrow> Finite (scale10 (digitsValue 10 (ip @ fp)) (e - int (length fp)))))"

definition negate :: "jsnum \<Rightarrow> jsnum" where
  "negate x =
     (case x of NaN \<Rightarrow> NaN | NegInfinity \<Rightarrow> PosInfinity
      | Finite q \<Rightarrow> Finite (- q) | PosInfinity \<Rightarrow> NegInfinity)"

definition strDecimalLiteral :: "string \<Rightarrow> jsnum" where
  "strDecimalLiteral u =
     (case u of
        [] \<Rightarrow> NaN
      | c # u' \<Rightarrow>
          if c = CHR ''+'' then strUnsignedDecimalLiteral u'
          else if c = CHR ''-'' then negate (strUnsignedDecimalLiteral u')
          else strUnsignedDecimalLiteral u)"

text \<open>\<^verbatim>\<open>0b\<close>, \<open>0o\<close>, \<open>0x\<close> literals (either case of the letter); \<open>None\<close> when \<open>u\<close> is not one.\<close>

definition nonDecimalIntegerLiteral :: "string \<Rightarrow> int option" where
  "nonDecimalIntegerLiteral u =
     (case u of
        z # x # ds \<Rightarrow>
          if z = CHR ''0'' \<and> ds \<noteq> [] then
            (if (x = CHR ''b'' \<or> x = CHR ''B'') \<and> list_all isBinaryDigit ds
               then Some (digitsValue 2 ds)
             else if (x = CHR ''o'' \<or> x = CHR ''O'') \<and> list_all isOctalDigit ds
               then Some (digitsValue 8 ds)
             else if (x = CHR ''x'' \<or> x = CHR ''X'') \<and> list_all isHexDigit ds
               then Some (digitsValue 16 ds)
             else None)
          else None
      | _ \<Rightarrow> None)"

definition stringToNumber :: "string \<Rightarrow> jsnum" where
  "stringToNumber t =
     (let u = trimString t
      in if u = [] then Finite 0
         else (case nonDecimalIntegerLiteral u of
                 Some n \<Rightarrow> Finite (of_int n)
               | None \<Rightarrow> strDecimalLiteral u))"

text \<open>
  \<open>x > n\<close> for a converted left operand and a small positive integer \<open>n\<close> on the
  right (the program uses 2, 3, 4 and 5). \<^verbatim>\<open>NaN\<close> compares false. A finite value is
  first rounded to the nearest double (ties to even); \<open>n\<close> is itself a double with
  an even significand, so the rounded value exceeds \<open>n\<close> exactly when the
  mathematical value exceeds \<open>n\<close> by more than half the distance to the next double,
  which is \<open>1 / 2 ^ (54 - bits n)\<close> for an \<open>n\<close> of \<open>bits n\<close> binary digits.
\<close>

fun bits :: "nat \<Rightarrow> nat" where
  "bits n = (if n = 0 then 0 else Suc (bits (n div 2)))"

declare bits.simps [simp del]

definition halfUlp :: "nat \<Rightarrow> rat" where
  "halfUlp n = 1 / 2 ^ (54 - bits n)"

definition numberGreater :: "jsnum \<Rightarrow> nat \<Rightarrow> bool" where
  "numberGreater x n =
     (case x of
        NaN \<Rightarrow> False
      | NegInfinity \<Rightarrow> False
      | Finite q \<Rightarrow> of_nat n + halfUlp n < q
      | PosInfinity \<Rightarrow> True)"


section \<open>The selector builder\<close>

subsection \<open>State of one selector object\<close>

text \<open>
  The constructor creates \<^verbatim>\<open>this.builder\<close>, an object with the seven properties
  below in this order, and the array \<^verbatim>\<open>this.order\<close>. The stored strings carry their
  punctuation (\<^verbatim>\<open>#\<close>, \<^verbatim>\<open>.\<close>, \<^verbatim>\<open>[ ]\<close>, \<^verbatim>\<open>:\<close>, \<^verbatim>\<open>::\<close>).
\<close>

record builder =
  b_element :: string
  b_id :: string
  b_class :: "string list"
  b_attr :: string
  b_pseudoClass :: "string list"
  b_pseudoElement :: string
  b_combiner :: "string list"

text \<open>
  What the methods push on \<^verbatim>\<open>this.order\<close>: the numbers 1 and 2 (\<^verbatim>\<open>element\<close>, \<^verbatim>\<open>id\<close>),
  a reference to the array \<^verbatim>\<open>this.builder.class\<close> or \<^verbatim>\<open>this.builder.pseudoClass\<close> of
  the same object (\<^verbatim>\<open>class\<close>, \<^verbatim>\<open>pseudoClass\<close>), or the string just stored
  (\<^verbatim>\<open>attr\<close>, \<^verbatim>\<open>pseudoElement\<close>). A reference is read through when the entry is
  compared, so it sees the elements pushed to the array since.
\<close>

datatype orderEntry = NumEntry nat | StrEntry string | ClassRef | PseudoClassRef

record selector =
  builder :: builder
  order :: "orderEntry list"

definition newSelector :: selector where
  "newSelector =
     \<lparr>builder = \<lparr>b_element = [], b_id = [], b_class = [], b_attr = [],
                 b_pseudoClass = [], b_pseudoElement = [], b_combiner = []\<rparr>,
      order = []\<rparr>"

datatype error = ElementUnique | IdUnique | PseudoElementUnique | WrongOrder | TypeError

text \<open>
  The first four are the messages of the \<^verbatim>\<open>Error\<close> objects the methods throw. In the
  words of the specification, the three \<^verbatim>\<open>... value should be unique\<close> messages are
  its duplicate error and \<^verbatim>\<open>Wrong order\<close> is its order error. \<open>TypeError\<close> is what the
  language throws for a method call through a reference that is not an object; only
  the operations on the store below can produce it.
\<close>

definition isDuplicateError :: "error \<Rightarrow> bool" where
  "isDuplicateError e \<longleftrightarrow> e = ElementUnique \<or> e = IdUnique \<or> e = PseudoElementUnique"

definition isOrderError :: "error \<Rightarrow> bool" where
  "isOrderError e \<longleftrightarrow> e = WrongOrder"

subsection \<open>The comparison \<^verbatim>\<open>this.order[0] > n\<close>\<close>

definition entryToNumber :: "selector \<Rightarrow> orderEntry \<Rightarrow> jsnum" where
  "entryToNumber this e =
     (case e of
        NumEntry k \<Rightarrow> Finite (of_nat k)
      | StrEntry t \<Rightarrow> stringToNumber t
      | ClassRef \<Rightarrow> stringToNumber (join '','' (b_class (builder this)))
      | PseudoClassRef \<Rightarrow> stringToNumber (join '','' (b_pseudoClass (builder this))))"

definition firstExceeds :: "selector \<Rightarrow> nat \<Rightarrow> bool" where
  "firstExceeds this n \<longleftrightarrow>
     length (order this) > 0 \<and> numberGreater (entryToNumber this (order this ! 0)) n"

subsection \<open>The part-adding methods\<close>

text \<open>Each method returns \<^verbatim>\<open>this\<close> after updating it, or throws before any update.\<close>

definition element :: "string \<Rightarrow> selector \<Rightarrow> error + selector" where
  "element v this =
     (if b_element (builder this) \<noteq> [] then Inl ElementUnique
      else if length (order this) > 0 then Inl WrongOrder
      else Inr (this\<lparr>builder := (builder this)\<lparr>b_element := v\<rparr>,
                     order := order this @ [NumEntry 1]\<rparr>))"

definition id_sel :: "string \<Rightarrow> selector \<Rightarrow> error + selector" where
  "id_sel v this =
     (if b_id (builder this) \<noteq> [] then Inl IdUnique
      else if firstExceeds this 2 then Inl WrongOrder
      else Inr (this\<lparr>builder := (builder this)\<lparr>b_id := ''#'' @ v\<rparr>,
                     order := order this @ [NumEntry 2]\<rparr>))"

definition class_sel :: "string \<Rightarrow> selector \<Rightarrow> error + selector" where
  "class_sel v this =
     (if firstExceeds this 3 then Inl WrongOrder
      else Inr (this\<lparr>builder := (builder this)\<lparr>b_class := b_class (builder this) @ [''.'' @ v]\<rparr>,
                     order := order this @ [ClassRef]\<rparr>))"

definition attr :: "string \<Rightarrow> selector \<Rightarrow> error + selector" where
  "attr v this =
     (if firstExceeds this 4 then Inl WrongOrder
      else Inr (this\<lparr>builder := (builder this)\<lparr>b_attr := ''['' @ v @ '']''\<rparr>,
                     order := order this @ [StrEntry (''['' @ v @ '']'')]\<rparr>))"

definition pseudoClass :: "string \<Rightarrow> selector \<Rightarrow> error + selector" where
  "pseudoClass v this =
     (if firstExceeds this 5 then Inl WrongOrder
      else Inr (this\<lparr>builder :=
                       (builder this)\<lparr>b_pseudoClass := b_pseudoClass (builder this) @ ['':'' @ v]\<rparr>,
                     order := order this @ [PseudoClassRef]\<rparr>))"

definition pseudoElement :: "string \<Rightarrow> selector \<Rightarrow> error + selector" where
  "pseudoElement v this =
     (if b_pseudoElement (builder this) \<noteq> [] then Inl PseudoElementUnique
      else Inr (this\<lparr>builder := (builder this)\<lparr>b_pseudoElement := ''::'' @ v\<rparr>,
                     order := order this @ [StrEntry (''::'' @ v)]\<rparr>))"

subsection \<open>Rendering\<close>

text \<open>
  \<^verbatim>\<open>stringify\<close> reads \<^verbatim>\<open>this.builder\<close> only. With a non-empty \<^verbatim>\<open>combiner\<close> the
  result is \<^verbatim>\<open>combiner.join(' ')\<close>. Otherwise it walks \<^verbatim>\<open>Object.keys(this.builder)\<close>,
  the seven property names in creation order, and appends every truthy property to
  the local string: an array (always truthy) as \<^verbatim>\<open>join('')\<close>, a non-empty string as it
  is.
\<close>

datatype key = K_element | K_id | K_class | K_attr | K_pseudoClass | K_pseudoElement | K_combiner

datatype property = StrProp string | ArrProp "string list"

definition keys :: "key list" where
  "keys = [K_element, K_id, K_class, K_attr, K_pseudoClass, K_pseudoElement, K_combiner]"

definition getProp :: "builder \<Rightarrow> key \<Rightarrow> property" where
  "getProp b k =
     (case k of
        K_element \<Rightarrow> StrProp (b_element b)
      | K_id \<Rightarrow> StrProp (b_id b)
      | K_class \<Rightarrow> ArrProp (b_class b)
      | K_attr \<Rightarrow> StrProp (b_attr b)
      | K_pseudoClass \<Rightarrow> ArrProp (b_pseudoClass b)
      | K_pseudoElement \<Rightarrow> StrProp (b_pseudoElement b)
      | K_combiner \<Rightarrow> ArrProp (b_combiner b))"

definition truthy :: "property \<Rightarrow> bool" where
  "truthy p = (case p of StrProp t \<Rightarrow> t \<noteq> [] | ArrProp _ \<Rightarrow> True)"

definition appendKey :: "selector \<Rightarrow> key \<Rightarrow> string \<Rightarrow> string" where
  "appendKey this k sel =
     (if truthy (getProp (builder this) k) then
        (case getProp (builder this) k of
           ArrProp xs \<Rightarrow> sel @ join [] xs
         | StrProp t \<Rightarrow> sel @ t)
      else sel)"

definition stringify :: "selector \<Rightarrow> string" where
  "stringify this =
     (if length (b_combiner (builder this)) > 0
      then [] @ join '' '' (b_combiner (builder this))
      else fold (appendKey this) keys [])"

subsection \<open>Combination\<close>

definition pushCombiner :: "string \<Rightarrow> selector \<Rightarrow> selector" where
  "pushCombiner t this =
     this\<lparr>builder := (builder this)\<lparr>b_combiner := b_combiner (builder this) @ [t]\<rparr>\<rparr>"

text \<open>
  \<^verbatim>\<open>combine(selector1, combinator, selector2)\<close> on a receiver that is neither of its
  two operands: three pushes, of the rendering of the first operand, of the
  combinator, and of the rendering of the second operand. (The case of a receiver
  that is also an operand needs the store; see \<open>h_combine\<close> below.)
\<close>

definition combine :: "selector \<Rightarrow> string \<Rightarrow> selector \<Rightarrow> selector \<Rightarrow> selector" where
  "combine selector1 combinator selector2 this =
     pushCombiner (stringify selector2)
       (pushCombiner combinator
         (pushCombiner (stringify selector1) this))"

subsection \<open>The facade \<^verbatim>\<open>cssSelectorBuilder\<close>\<close>

definition cssSelectorBuilder_element :: "string \<Rightarrow> error + selector" where
  "cssSelectorBuilder_element v = element v newSelector"

definition cssSelectorBuilder_id :: "string \<Rightarrow> error + selector" where
  "cssSelectorBuilder_id v = id_sel v newSelector"

definition cssSelectorBuilder_class :: "string \<Rightarrow> error + selector" where
  "cssSelectorBuilder_class v = class_sel v newSelector"

definition cssSelectorBuilder_attr :: "string \<Rightarrow> error + selector" where
  "cssSelectorBuilder_attr v = attr v newSelector"

definition cssSelectorBuilder_pseudoClass :: "string \<Rightarrow> error + selector" where
  "cssSelectorBuilder_pseudoClass v = pseudoClass v newSelector"

definition cssSelectorBuilder_pseudoElement :: "string \<Rightarrow> error + selector" where
  "cssSelectorBuilder_pseudoElement v = pseudoElement v newSelector"

definition cssSelectorBuilder_combine :: "selector \<Rightarrow> string \<Rightarrow> selector \<Rightarrow> selector" where
  "cssSelectorBuilder_combine selector1 combinator selector2 =
     combine selector1 combinator selector2 newSelector"

subsection \<open>Chains of calls\<close>

text \<open>
  A chain \<^verbatim>\<open>r.m(v)\<close> continues with the object returned by \<^verbatim>\<open>r\<close>; an exception thrown
  by \<^verbatim>\<open>r\<close> ends the chain.
\<close>

definition thenCall :: "error + selector \<Rightarrow> (selector \<Rightarrow> error + selector) \<Rightarrow> error + selector" where
  "thenCall r m = (case r of Inl e \<Rightarrow> Inl e | Inr this \<Rightarrow> m this)"

datatype call =
    Element string | Id string | Class string | Attr string
  | PseudoClass string | PseudoElement string

definition invoke :: "call \<Rightarrow> selector \<Rightarrow> error + selector" where
  "invoke c this =
     (case c of
        Element v \<Rightarrow> element v this
      | Id v \<Rightarrow> id_sel v this
      | Class v \<Rightarrow> class_sel v this
      | Attr v \<Rightarrow> attr v this
      | PseudoClass v \<Rightarrow> pseudoClass v this
      | PseudoElement v \<Rightarrow> pseudoElement v this)"

fun chain :: "call list \<Rightarrow> selector \<Rightarrow> error + selector" where
  "chain [] this = Inr this"
| "chain (c # cs) this = (case invoke c this of Inl e \<Rightarrow> Inl e | Inr this' \<Rightarrow> chain cs this')"



subsection \<open>Selector objects in a store\<close>

text \<open>
  Selector objects are mutable and are passed by reference. The store is the list of
  the objects created so far, a reference is an index into it, and \<^verbatim>\<open>new\<close> appends.
  A failed operation returns the error only; the store it leaves behind is not
  modelled.
\<close>

type_synonym addr = nat
type_synonym heap = "selector list"

definition h_new :: "heap \<Rightarrow> addr \<times> heap" where
  "h_new h = (length h, h @ [newSelector])"

definition h_invoke :: "addr \<Rightarrow> call \<Rightarrow> heap \<Rightarrow> error + heap" where
  "h_invoke this c h =
     (if this < length h then
        (case invoke c (h ! this) of
           Inl e \<Rightarrow> Inl e
         | Inr this' \<Rightarrow> Inr (h[this := this']))
      else Inl TypeError)"

text \<open>The call \<^verbatim>\<open>o.stringify()\<close>: the returned string and the store after the call.\<close>

definition h_stringify :: "addr \<Rightarrow> heap \<Rightarrow> error + string \<times> heap" where
  "h_stringify this h =
     (if this < length h then Inr (stringify (h ! this), h) else Inl TypeError)"

text \<open>
  The method \<^verbatim>\<open>combine\<close> with its statements in program order, so that a receiver
  that is also an operand is rendered as the earlier pushes have left it.
\<close>

definition h_combine :: "addr \<Rightarrow> addr \<Rightarrow> string \<Rightarrow> addr \<Rightarrow> heap \<Rightarrow> error + heap" where
  "h_combine this selector1 combinator selector2 h =
     (if this < length h then
        (case h_stringify selector1 h of
           Inl e \<Rightarrow> Inl e
         | Inr (t1, h1) \<Rightarrow>
             let h2 = h1[this := pushCombiner t1 (h1 ! this)];
                 h3 = h2[this := pushCombiner combinator (h2 ! this)]
             in (case h_stringify selector2 h3 of
                   Inl e \<Rightarrow> Inl e
                 | Inr (t2, h4) \<Rightarrow> Inr (h4[this := pushCombiner t2 (h4 ! this)])))
      else Inl TypeError)"

text \<open>
  The facade \<^verbatim>\<open>cssSelectorBuilder.combine\<close>: the operands exist when the call is made,
  the receiver is created by the call.
\<close>

definition h_cssSelectorBuilder_combine ::
  "addr \<Rightarrow> string \<Rightarrow> addr \<Rightarrow> heap \<Rightarrow> error + addr \<times> heap" where
  "h_cssSelectorBuilder_combine selector1 combinator selector2 h =
     (if selector1 < length h \<and> selector2 < length h then
        (case h_new h of
           (this, h0) \<Rightarrow>
             (case h_combine this selector1 combinator selector2 h0 of
                Inl e \<Rightarrow> Inl e
              | Inr h' \<Rightarrow> Inr (this, h')))
      else Inl TypeError)"

text \<open>Method calls on objects of the store, each with its receiver first.\<close>

datatype hcall = PartCall addr call | CombineCall addr addr string addr

definition receiver :: "hcall \<Rightarrow> addr" where
  "receiver op = (case op of PartCall this _ \<Rightarrow> this | CombineCall this _ _ _ \<Rightarrow> this)"

definition h_step :: "hcall \<Rightarrow> heap \<Rightarrow> error + heap" where
  "h_step op h =
     (case op of
        PartCall this c \<Rightarrow> h_invoke this c h
      | CombineCall this s1 c s2 \<Rightarrow> h_combine this s1 c s2 h)"

fun h_run :: "hcall list \<Rightarrow> heap \<Rightarrow> error + heap" where
  "h_run [] h = Inr h"
| "h_run (op # ops) h = (case h_step op h of Inl e \<Rightarrow> Inl e | Inr h' \<Rightarrow> h_run ops h')"


section \<open>The rendering as the specification words it\<close>

text \<open>
  The data model of the specification: each single part is absent or a string
  without punctuation, classes and pseudo-classes are sequences in insertion
  order. \<open>collect\<close> records the arguments of a chain of calls, with no check.
  \<open>render\<close> concatenates the parts that are present in the fixed category order,
  adding the punctuation of each category and no separator.
\<close>

record parts =
  elementName :: "string option"
  idName :: "string option"
  classNames :: "string list"
  attributeExpr :: "string option"
  pseudoClassNames :: "string list"
  pseudoElementName :: "string option"

definition noParts :: parts where
  "noParts =
     \<lparr>elementName = None, idName = None, classNames = [], attributeExpr = None,
      pseudoClassNames = [], pseudoElementName = None\<rparr>"

definition addPart :: "call \<Rightarrow> parts \<Rightarrow> parts" where
  "addPart c p =
     (case c of
        Element v \<Rightarrow> p\<lparr>elementName := Some v\<rparr>
      | Id v \<Rightarrow> p\<lparr>idName := Some v\<rparr>
      | Class v \<Rightarrow> p\<lparr>classNames := classNames p @ [v]\<rparr>
      | Attr v \<Rightarrow> p\<lparr>attributeExpr := Some v\<rparr>
      | PseudoClass v \<Rightarrow> p\<lparr>pseudoClassNames := pseudoClassNames p @ [v]\<rparr>
      | PseudoElement v \<Rightarrow> p\<lparr>pseudoElementName := Some v\<rparr>)"

definition collect :: "call list \<Rightarrow> parts" where
  "collect cs = fold addPart cs noParts"

definition render :: "parts \<Rightarrow> string" where
  "render p =
     (case elementName p of None \<Rightarrow> [] | Some v \<Rightarrow> v)
     @ (case idName p of None \<Rightarrow> [] | Some v \<Rightarrow> ''#'' @ v)
     @ concat (map (\<lambda>v. ''.'' @ v) (classNames p))
     @ (case attributeExpr p of None \<Rightarrow> [] | Some v \<Rightarrow> ''['' @ v @ '']'')
     @ concat (map (\<lambda>v. '':'' @ v) (pseudoClassNames p))
     @ (case pseudoElementName p of None \<Rightarrow> [] | Some v \<Rightarrow> ''::'' @ v)"

text \<open>The state of a builder without combination that stands for given parts.\<close>

definition represents :: "selector \<Rightarrow> parts \<Rightarrow> bool" where
  "represents this p \<longleftrightarrow>
     b_element (builder this) = (case elementName p of None \<Rightarrow> [] | Some v \<Rightarrow> v)
     \<and> b_id (builder this) = (case idName p of None \<Rightarrow> [] | Some v \<Rightarrow> ''#'' @ v)
     \<and> b_class (builder this) = map (\<lambda>v. ''.'' @ v) (classNames p)
     \<and> b_attr (builder this) = (case attributeExpr p of None \<Rightarrow> [] | Some v \<Rightarrow> ''['' @ v @ '']'')
     \<and> b_pseudoClass (builder this) = map (\<lambda>v. '':'' @ v) (pseudoClassNames p)
     \<and> b_pseudoElement (builder this)
         = (case pseudoElementName p of None \<Rightarrow> [] | Some v \<Rightarrow> ''::'' @ v)
     \<and> b_combiner (builder this) = []"



section \<open>Auxiliary facts\<close>

lemmas number_defs = stringToNumber_def trimString_def isStrWhiteSpaceChar_def
  nonDecimalIntegerLiteral_def strDecimalLiteral_def strUnsignedDecimalLiteral_def
  isDecimalDigit_def exponentPart_def signedInteger_def decimalDigits_def
  numberGreater_def entryToNumber_def firstExceeds_def halfUlp_def bits.simps

lemmas method_defs = element_def id_sel_def class_sel_def attr_def pseudoClass_def
  pseudoElement_def invoke_def thenCall_def newSelector_def
  cssSelectorBuilder_element_def cssSelectorBuilder_id_def cssSelectorBuilder_class_def
  cssSelectorBuilder_attr_def cssSelectorBuilder_pseudoClass_def
  cssSelectorBuilder_pseudoElement_def

lemmas stringify_defs = stringify_def keys_def appendKey_def getProp_def truthy_def

subsection \<open>The comparison on numbers\<close>

lemma bits_bound: "n < 2 ^ m \<Longrightarrow> bits n \<le> m"
proof (induction m arbitrary: n)
  case 0
  then show ?case by (simp add: bits.simps)
next
  case (Suc m)
  show ?case
  proof (cases "n = 0")
    case True
    then show ?thesis by (simp add: bits.simps)
  next
    case False
    from Suc.prems have "n div 2 < 2 ^ m" by simp
    from Suc.IH [OF this] False show ?thesis by (subst bits.simps) simp
  qed
qed

lemma halfUlp_bounds:
  assumes "n < 2 ^ 53"
  shows "0 < halfUlp n \<and> halfUlp n < 1"
proof -
  from bits_bound [OF assms] obtain k where k: "54 - bits n = Suc k"
    by (cases "54 - bits n") auto
  have "(1::rat) < 2 ^ Suc k"
    by (rule one_less_power) simp_all
  then show ?thesis
    by (simp add: halfUlp_def k del: power_Suc)
qed

text \<open>On an entry that is a number the guard is the comparison of the two numbers.\<close>

lemma numberGreater_nat:
  assumes "n < 2 ^ 53"
  shows "numberGreater (Finite (of_nat k)) n \<longleftrightarrow> n < k"
proof
  assume "numberGreater (Finite (of_nat k)) n"
  with halfUlp_bounds [OF assms] have "(of_nat n :: rat) < of_nat k"
    by (simp add: numberGreater_def)
  then show "n < k" by simp
next
  assume "n < k"
  then have "(of_nat n :: rat) + 1 \<le> of_nat k"
    by (metis Suc_leI of_nat_Suc of_nat_le_iff add.commute)
  with halfUlp_bounds [OF assms] show "numberGreater (Finite (of_nat k)) n"
    by (simp add: numberGreater_def)
qed

subsection \<open>Strings that are not numbers\<close>

lemma trimString_Cons:
  "\<not> isStrWhiteSpaceChar c \<Longrightarrow>
   trimString (c # t) = c # rev (dropWhile isStrWhiteSpaceChar (rev t))"
  by (simp add: trimString_def dropWhile_append3)

text \<open>A string that starts with a colon is \<^verbatim>\<open>NaN\<close>, whatever follows.\<close>

lemma stringToNumber_colon: "stringToNumber (CHR '':'' # t) = NaN"
proof -
  have "\<not> isStrWhiteSpaceChar CHR '':''"
    by (simp add: isStrWhiteSpaceChar_def)
  from trimString_Cons [OF this] obtain u where u: "trimString (CHR '':'' # t) = CHR '':'' # u"
    by blast
  have "nonDecimalIntegerLiteral (CHR '':'' # u) = None"
    by (simp add: nonDecimalIntegerLiteral_def split: list.splits)
  moreover have "strDecimalLiteral (CHR '':'' # u) = NaN"
    by (simp add: strDecimalLiteral_def strUnsignedDecimalLiteral_def isDecimalDigit_def)
  ultimately show ?thesis
    by (simp add: stringToNumber_def u)
qed

subsection \<open>The guards after a first class\<close>

text \<open>
  After a first \<^verbatim>\<open>class\<close> call the entry compared is the class array. With one
  ordinary class name it converts to \<^verbatim>\<open>NaN\<close> and every guard passes; with a class
  name that reads as a number above the threshold the guard throws.
\<close>

lemma class_then_id_accepted:
  "\<not> isl (chain [Class ''a'', Id ''x''] newSelector)"
  by (simp add: method_defs number_defs)

lemma numeric_class_blocks_class:
  "chain [Class ''9e9'', Class ''a''] newSelector = Inl WrongOrder"
  by (simp add: method_defs number_defs scale10_def digitsValue_def digitValue_def)

subsection \<open>Rendering of a builder without combination\<close>

lemma join_empty_separator: "join [] xs = concat xs"
  by (induction "[] :: string" xs rule: join.induct) simp_all

lemma stringify_simple:
  "b_combiner (builder this) = [] \<Longrightarrow>
   stringify this =
     b_element (builder this) @ b_id (builder this) @ concat (b_class (builder this))
     @ b_attr (builder this) @ concat (b_pseudoClass (builder this))
     @ b_pseudoElement (builder this)"
  by (simp add: stringify_defs join_empty_separator)

lemma represents_stringify: "represents this p \<Longrightarrow> stringify this = render p"
  by (simp add: represents_def stringify_simple render_def)

lemma represents_new: "represents newSelector noParts"
  by (simp add: represents_def newSelector_def noParts_def)

lemma represents_invoke:
  "represents this p \<Longrightarrow> invoke c this = Inr this' \<Longrightarrow> represents this' (addPart c p)"
  by (cases c)
     (auto simp: invoke_def element_def id_sel_def class_sel_def attr_def pseudoClass_def
        pseudoElement_def represents_def addPart_def split: if_splits)

lemma represents_chain:
  "represents this p \<Longrightarrow> chain cs this = Inr this' \<Longrightarrow> represents this' (fold addPart cs p)"
proof (induction cs arbitrary: this p)
  case Nil
  then show ?case by simp
next
  case (Cons c cs)
  from Cons.prems(2) obtain mid where
    step: "invoke c this = Inr mid" and rest: "chain cs mid = Inr this'"
    by (auto split: sum.splits)
  from represents_invoke [OF Cons.prems(1) step] have "represents mid (addPart c p)" .
  from Cons.IH [OF this rest] show ?case by simp
qed

lemma stringify_combine:
  "b_combiner (builder this) = [] \<Longrightarrow>
   stringify (combine a c b this) = stringify a @ '' '' @ c @ '' '' @ stringify b"
  by (simp add: combine_def pushCombiner_def stringify_def)

subsection \<open>Every successful part-adding call extends \<^verbatim>\<open>order\<close>\<close>




subsection \<open>Calls on the store change the receiver only\<close>

lemma h_invoke_frame:
  "h_invoke this c h = Inr h' \<Longrightarrow>
   length h' = length h \<and> (\<forall>i. i \<noteq> this \<longrightarrow> h' ! i = h ! i)"
  by (auto simp: h_invoke_def split: if_splits sum.splits)

lemma h_combine_frame:
  "h_combine this s1 c s2 h = Inr h' \<Longrightarrow>
   length h' = length h \<and> (\<forall>i. i \<noteq> this \<longrightarrow> h' ! i = h ! i)"
  by (auto simp: h_combine_def h_stringify_def Let_def split: if_splits sum.splits)

lemma h_step_frame:
  "h_step op h = Inr h' \<Longrightarrow>
   length h' = length h \<and> (\<forall>i. i \<noteq> receiver op \<longrightarrow> h' ! i = h ! i)"
  by (cases op) (auto simp: h_step_def receiver_def dest: h_invoke_frame h_combine_frame)

lemma h_run_frame:
  "h_run ops h = Inr h' \<Longrightarrow> \<forall>op \<in> set ops. receiver op \<noteq> s \<Longrightarrow> h' ! s = h ! s"
proof (induction ops arbitrary: h)
  case Nil
  then show ?case by simp
next
  case (Cons op ops)
  then obtain mid where
    step: "h_step op h = Inr mid" and rest: "h_run ops mid = Inr h'"
    by (auto split: sum.splits)
  from Cons.prems(2) have "receiver op \<noteq> s" and "\<forall>op \<in> set ops. receiver op \<noteq> s"
    by simp_all
  with h_step_frame [OF step] Cons.IH [OF rest] show ?case by simp
qed

text \<open>With a receiver distinct from both operands the store version is \<open>combine\<close>.\<close>

lemma h_combine_distinct:
  assumes "this < length h" "s1 < length h" "s2 < length h" "this \<noteq> s1" "this \<noteq> s2"
  shows "h_combine this s1 c s2 h = Inr (h[this := combine (h ! s1) c (h ! s2) (h ! this)])"
  using assms by (simp add: h_combine_def h_stringify_def Let_def combine_def)

lemma h_facade_combine:
  assumes "h_cssSelectorBuilder_combine a c b h = Inr (s, h1)"
  shows "a < length h \<and> b < length h \<and> s = length h
         \<and> h1 = h @ [cssSelectorBuilder_combine (h ! a) c (h ! b)]"
proof -
  from assms have a: "a < length h" and b: "b < length h"
    by (auto simp: h_cssSelectorBuilder_combine_def split: if_splits)
  let ?h0 = "h @ [newSelector]"
  have "h_combine (length h) a c b ?h0
        = Inr (?h0[length h := combine (?h0 ! a) c (?h0 ! b) (?h0 ! length h)])"
    using a b by (intro h_combine_distinct) auto
  with a b assms show ?thesis
    by (auto simp: h_cssSelectorBuilder_combine_def h_new_def nth_append
        cssSelectorBuilder_combine_def)
qed

text \<open>The facade succeeds on every pair of existing operands.\<close>

lemma h_facade_combine_total:
  assumes "a < length h" "b < length h"
  shows "h_cssSelectorBuilder_combine a c b h
         = Inr (length h, h @ [cssSelectorBuilder_combine (h ! a) c (h ! b)])"
proof -
  let ?h0 = "h @ [newSelector]"
  have "h_combine (length h) a c b ?h0
        = Inr (?h0[length h := combine (?h0 ! a) c (?h0 ! b) (?h0 ! length h)])"
    using assms by (intro h_combine_distinct) auto
  with assms show ?thesis
    by (simp add: h_cssSelectorBuilder_combine_def h_new_def nth_append
        cssSelectorBuilder_combine_def)
qed



section \<open>The order gate\<close>

text \<open>
  Claim C1 (a builder operation raises the order error exactly under the first-rank
  gate; in particular an \<^verbatim>\<open>id\<close> call on a builder whose first part is a
  pseudo-element raises it). The code does not do so: \<^verbatim>\<open>pseudoElement\<close> records the
  stored string \<^verbatim>\<open>'::' + value\<close> in \<^verbatim>\<open>order\<close>, not the rank 6, and that string
  compared with 2 is \<^verbatim>\<open>NaN > 2\<close>, which is false. For every pair of arguments the
  chain \<^verbatim>\<open>pseudoElement(v).id(w)\<close> from the facade returns the builder with both
  parts stored, and no error.
\<close>

theorem pseudoElement_then_id_accepted:
  "thenCall (cssSelectorBuilder_pseudoElement v) (id_sel w) =
     Inr \<lparr>builder = \<lparr>b_element = [], b_id = ''#'' @ w, b_class = [], b_attr = [],
                      b_pseudoClass = [], b_pseudoElement = ''::'' @ v, b_combiner = []\<rparr>,
          order = [StrEntry (''::'' @ v), NumEntry 2]\<rparr>"
  by (simp add: cssSelectorBuilder_pseudoElement_def pseudoElement_def newSelector_def
      thenCall_def id_sel_def firstExceeds_def entryToNumber_def stringToNumber_colon
      numberGreater_def)





section \<open>Rendering\<close>

text \<open>
  Claim C3 (for a builder made by part-adding calls only, \<^verbatim>\<open>stringify\<close> returns the
  parts that were set, in the order element, id, classes, attribute,
  pseudo-classes, pseudo-element, with \<^verbatim>\<open>#\<close>, \<^verbatim>\<open>.\<close>, \<^verbatim>\<open>[ ]\<close>, \<^verbatim>\<open>:\<close>, \<^verbatim>\<open>::\<close> and no
  separator). Whenever a chain of part-adding calls on a new builder succeeds,
  the rendering of the resulting builder is \<open>render\<close> of the arguments collected
  from the chain.
\<close>

theorem stringify_renders_parts:
  "chain cs newSelector = Inr this \<Longrightarrow> stringify this = render (collect cs)"
  unfolding collect_def
  by (rule represents_stringify, rule represents_chain [OF represents_new])

theorem stringify_renders_parts_witness:
  "chain [Element ''a'', Id ''main'', Class ''container'', Class ''editable'',
          Attr ''href$=\".png\"'', PseudoClass ''focus'', PseudoElement ''before''] newSelector =
     Inr \<lparr>builder = \<lparr>b_element = ''a'', b_id = ''#main'',
                      b_class = [''.container'', ''.editable''], b_attr = ''[href$=\".png\"]'',
                      b_pseudoClass = ['':focus''], b_pseudoElement = ''::before'',
                      b_combiner = []\<rparr>,
          order = [NumEntry 1, NumEntry 2, ClassRef, ClassRef, StrEntry ''[href$=\".png\"]'',
                   PseudoClassRef, StrEntry ''::before'']\<rparr>
   \<and> stringify
       \<lparr>builder = \<lparr>b_element = ''a'', b_id = ''#main'',
                    b_class = [''.container'', ''.editable''], b_attr = ''[href$=\".png\"]'',
                    b_pseudoClass = ['':focus''], b_pseudoElement = ''::before'',
                    b_combiner = []\<rparr>,
        order = [NumEntry 1, NumEntry 2, ClassRef, ClassRef, StrEntry ''[href$=\".png\"]'',
                 PseudoClassRef, StrEntry ''::before'']\<rparr>
     = ''a#main.container.editable[href$=\".png\"]:focus::before''"
proof -
  have run: "chain [Element ''a'', Id ''main'', Class ''container'', Class ''editable'',
          Attr ''href$=\".png\"'', PseudoClass ''focus'', PseudoElement ''before''] newSelector =
     Inr \<lparr>builder = \<lparr>b_element = ''a'', b_id = ''#main'',
                      b_class = [''.container'', ''.editable''], b_attr = ''[href$=\".png\"]'',
                      b_pseudoClass = ['':focus''], b_pseudoElement = ''::before'',
                      b_combiner = []\<rparr>,
          order = [NumEntry 1, NumEntry 2, ClassRef, ClassRef, StrEntry ''[href$=\".png\"]'',
                   PseudoClassRef, StrEntry ''::before'']\<rparr>"
    by (simp add: method_defs number_defs)
  have "render (collect [Element ''a'', Id ''main'', Class ''container'', Class ''editable'',
          Attr ''href$=\".png\"'', PseudoClass ''focus'', PseudoElement ''before''])
        = ''a#main.container.editable[href$=\".png\"]:focus::before''"
    by (simp add: render_def collect_def addPart_def noParts_def)
  with stringify_renders_parts [OF run] run show ?thesis by simp
qed

text \<open>
  Claim C4 (\<^verbatim>\<open>combine(a, c, b).stringify()\<close> is the rendering of \<open>a\<close>, a space, \<open>c\<close>, a
  space, the rendering of \<open>b\<close>; nested combinations compose; the example renders
  as \<^verbatim>\<open>div#main + table#data\<close>).
\<close>

theorem cssSelectorBuilder_combine_stringify:
  "stringify (cssSelectorBuilder_combine a c b) = stringify a @ '' '' @ c @ '' '' @ stringify b
   \<and> stringify (cssSelectorBuilder_combine a c (cssSelectorBuilder_combine b d e))
       = stringify a @ '' '' @ c @ '' '' @ (stringify b @ '' '' @ d @ '' '' @ stringify e)
   \<and> \<not> isl (thenCall (cssSelectorBuilder_element ''div'') (id_sel ''main''))
   \<and> \<not> isl (thenCall (cssSelectorBuilder_element ''table'') (id_sel ''data''))
   \<and> stringify
         (cssSelectorBuilder_combine
            (projr (thenCall (cssSelectorBuilder_element ''div'') (id_sel ''main'')))
            ''+''
            (projr (thenCall (cssSelectorBuilder_element ''table'') (id_sel ''data''))))
       = ''div#main + table#data''"
proof -
  have general: "stringify (cssSelectorBuilder_combine x y z)
                 = stringify x @ '' '' @ y @ '' '' @ stringify z" for x y z
    by (simp add: cssSelectorBuilder_combine_def stringify_combine newSelector_def)
  have divMain: "thenCall (cssSelectorBuilder_element ''div'') (id_sel ''main'') =
     Inr \<lparr>builder = \<lparr>b_element = ''div'', b_id = ''#main'', b_class = [], b_attr = [],
                      b_pseudoClass = [], b_pseudoElement = [], b_combiner = []\<rparr>,
          order = [NumEntry 1, NumEntry 2]\<rparr>"
    by (simp add: method_defs number_defs)
  have tableData: "thenCall (cssSelectorBuilder_element ''table'') (id_sel ''data'') =
     Inr \<lparr>builder = \<lparr>b_element = ''table'', b_id = ''#data'', b_class = [], b_attr = [],
                      b_pseudoClass = [], b_pseudoElement = [], b_combiner = []\<rparr>,
          order = [NumEntry 1, NumEntry 2]\<rparr>"
    by (simp add: method_defs number_defs)
  show ?thesis
    by (simp add: general divMain tableData stringify_simple)
qed

text \<open>
  Claim C10 (\<^verbatim>\<open>stringify\<close> is an observation: a call changes no field of the
  builder, and a second call returns the same string). A call of \<^verbatim>\<open>stringify\<close> on
  an object of the store returns the store as it was, hence \<^verbatim>\<open>builder\<close> with its
  seven properties and \<^verbatim>\<open>order\<close> of the receiver as they were, and the same call
  on the returned store gives the same string.
\<close>

theorem stringify_leaves_store:
  "h_stringify this h = Inr (t, h') \<Longrightarrow>
     h' = h \<and> builder (h' ! this) = builder (h ! this) \<and> order (h' ! this) = order (h ! this)
     \<and> h_stringify this h' = Inr (t, h')"
  by (auto simp: h_stringify_def split: if_splits)

theorem stringify_leaves_store_witness:
  "h_stringify 0
     [\<lparr>builder = \<lparr>b_element = ''a'', b_id = ''#main'', b_class = [], b_attr = [],
                   b_pseudoClass = [], b_pseudoElement = [], b_combiner = []\<rparr>,
       order = [NumEntry 1, NumEntry 2]\<rparr>]
   = Inr (''a#main'',
     [\<lparr>builder = \<lparr>b_element = ''a'', b_id = ''#main'', b_class = [], b_attr = [],
                   b_pseudoClass = [], b_pseudoElement = [], b_combiner = []\<rparr>,
       order = [NumEntry 1, NumEntry 2]\<rparr>])"
proof -
  have call: "h_stringify 0
     [\<lparr>builder = \<lparr>b_element = ''a'', b_id = ''#main'', b_class = [], b_attr = [],
                   b_pseudoClass = [], b_pseudoElement = [], b_combiner = []\<rparr>,
       order = [NumEntry 1, NumEntry 2]\<rparr>]
   = Inr (''a#main'',
     [\<lparr>builder = \<lparr>b_element = ''a'', b_id = ''#main'', b_class = [], b_attr = [],
                   b_pseudoClass = [], b_pseudoElement = [], b_combiner = []\<rparr>,
       order = [NumEntry 1, NumEntry 2]\<rparr>])"
    by (simp add: h_stringify_def stringify_simple)
  from stringify_leaves_store [OF call] show ?thesis by simp
qed

text \<open>
  Claim C6 (\<^verbatim>\<open>combine\<close> keeps the rendered strings of its operands, not the operand
  objects: it changes neither operand, and later changes of the operands do not
  change the rendering of the combination). When the facade call on the operands
  \<open>a\<close> and \<open>b\<close> of a store returns the new object \<open>s\<close>, the \<^verbatim>\<open>combiner\<close> of \<open>s\<close> holds
  the two renderings and the combinator, \<open>a\<close> and \<open>b\<close> are as before, and after any
  successful run of method calls whose receivers are \<open>a\<close> or \<open>b\<close> the object \<open>s\<close> and
  its rendering are as they were.
\<close>

theorem combine_captures_renderings:
  assumes "h_cssSelectorBuilder_combine a c b h = Inr (s, h1)"
    and "h_run ops h1 = Inr h2"
    and "\<forall>op \<in> set ops. receiver op = a \<or> receiver op = b"
  shows "b_combiner (builder (h1 ! s)) = [stringify (h ! a), c, stringify (h ! b)]
         \<and> h1 ! a = h ! a \<and> h1 ! b = h ! b
         \<and> h2 ! s = h1 ! s \<and> stringify (h2 ! s) = stringify (h1 ! s)"
proof -
  from h_facade_combine [OF assms(1)] have
    a: "a < length h" and b: "b < length h" and s: "s = length h"
    and h1: "h1 = h @ [cssSelectorBuilder_combine (h ! a) c (h ! b)]" by simp_all
  have stored: "b_combiner (builder (h1 ! s)) = [stringify (h ! a), c, stringify (h ! b)]"
    by (simp add: h1 s cssSelectorBuilder_combine_def combine_def pushCombiner_def newSelector_def)
  have kept: "h1 ! a = h ! a" "h1 ! b = h ! b"
    using a b by (simp_all add: h1 nth_append)
  from assms(3) a b s have "\<forall>op \<in> set ops. receiver op \<noteq> s" by auto
  from h_run_frame [OF assms(2) this] have "h2 ! s = h1 ! s" .
  with stored kept show ?thesis by simp
qed

theorem combine_captures_renderings_witness:
  "let divMain = \<lparr>builder = \<lparr>b_element = ''div'', b_id = ''#main'', b_class = [], b_attr = [],
                     b_pseudoClass = [], b_pseudoElement = [], b_combiner = []\<rparr>,
                   order = [NumEntry 1, NumEntry 2]\<rparr>;
       tableData = \<lparr>builder = \<lparr>b_element = ''table'', b_id = ''#data'', b_class = [],
                       b_attr = [], b_pseudoClass = [], b_pseudoElement = [],
                       b_combiner = []\<rparr>,
                     order = [NumEntry 1, NumEntry 2]\<rparr>;
       combined = \<lparr>builder = \<lparr>b_element = [], b_id = [], b_class = [], b_attr = [],
                      b_pseudoClass = [], b_pseudoElement = [],
                      b_combiner = [''div#main'', ''+'', ''table#data'']\<rparr>,
                    order = []\<rparr>;
       ops = [PartCall 0 (Class ''x''), PartCall 1 (PseudoElement ''after'')];
       h2 = [projr (class_sel ''x'' divMain), projr (pseudoElement ''after'' tableData), combined]
   in h_cssSelectorBuilder_combine 0 ''+'' 1 [divMain, tableData]
        = Inr (2, [divMain, tableData, combined])
      \<and> h_run ops [divMain, tableData, combined] = Inr h2
      \<and> list_all (\<lambda>op. receiver op = 0 \<or> receiver op = 1) ops
      \<and> stringify (h2 ! 0) = ''div#main.x''
      \<and> stringify (h2 ! 1) = ''table#data::after''
      \<and> stringify (h2 ! 2) = ''div#main + table#data''"
proof -
  define divMain where "divMain =
    \<lparr>builder = \<lparr>b_element = ''div'', b_id = ''#main'', b_class = [], b_attr = [],
                 b_pseudoClass = [], b_pseudoElement = [], b_combiner = []\<rparr>,
      order = [NumEntry 1, NumEntry 2]\<rparr>"
  define tableData where "tableData =
    \<lparr>builder = \<lparr>b_element = ''table'', b_id = ''#data'', b_class = [], b_attr = [],
                 b_pseudoClass = [], b_pseudoElement = [], b_combiner = []\<rparr>,
      order = [NumEntry 1, NumEntry 2]\<rparr>"
  define combined where "combined =
    \<lparr>builder = \<lparr>b_element = [], b_id = [], b_class = [], b_attr = [],
                 b_pseudoClass = [], b_pseudoElement = [],
                 b_combiner = [''div#main'', ''+'', ''table#data'']\<rparr>,
      order = []\<rparr>"
  define ops where "ops = [PartCall 0 (Class ''x''), PartCall 1 (PseudoElement ''after'')]"
  define h2 where
    "h2 = [projr (class_sel ''x'' divMain), projr (pseudoElement ''after'' tableData), combined]"
  have facade: "h_cssSelectorBuilder_combine 0 ''+'' 1 [divMain, tableData]
                = Inr (2, [divMain, tableData, combined])"
    by (simp add: h_facade_combine_total cssSelectorBuilder_combine_def combine_def
        pushCombiner_def newSelector_def stringify_simple divMain_def tableData_def combined_def)
  have run: "h_run ops [divMain, tableData, combined] = Inr h2"
    by (simp add: ops_def h2_def h_step_def h_invoke_def invoke_def class_sel_def
        pseudoElement_def number_defs divMain_def tableData_def)
  have recv: "\<forall>op \<in> set ops. receiver op = 0 \<or> receiver op = 1"
    by (simp add: ops_def receiver_def)
  have rendered: "stringify (h2 ! 0) = ''div#main.x''" "stringify (h2 ! 1) = ''table#data::after''"
    by (simp_all add: h2_def class_sel_def pseudoElement_def number_defs stringify_simple
        divMain_def tableData_def)
  have "stringify ([divMain, tableData, combined] ! 2) = ''div#main + table#data''"
    by (simp add: combined_def stringify_def)
  with combine_captures_renderings [OF facade run recv]
  have "stringify (h2 ! 2) = ''div#main + table#data''" by simp
  with facade run recv rendered show ?thesis
    unfolding Let_def divMain_def [symmetric] tableData_def [symmetric] combined_def [symmetric]
      ops_def [symmetric] h2_def [symmetric]
    by (simp add: list_all_iff)
qed


section \<open>Uniqueness of element, id and pseudo-element\<close>

text \<open>
  What the three uniqueness guards do on a second call from the facade: \<^verbatim>\<open>id\<close> and
  \<^verbatim>\<open>pseudoElement\<close> raise the duplicate error after every first argument, the
  empty string included, because they store \<^verbatim>\<open>'#' + value\<close> and \<^verbatim>\<open>'::' + value\<close>;
  \<^verbatim>\<open>element\<close> stores its argument as it is and raises the duplicate error after
  every non-empty first argument.
\<close>

lemma second_call_duplicate:
  "thenCall (cssSelectorBuilder_id v1) (id_sel v) = Inl IdUnique
   \<and> thenCall (cssSelectorBuilder_pseudoElement v1) (pseudoElement v) = Inl PseudoElementUnique
   \<and> (v1 \<noteq> [] \<longrightarrow> thenCall (cssSelectorBuilder_element v1) (element v) = Inl ElementUnique)
   \<and> isDuplicateError ElementUnique \<and> isDuplicateError IdUnique
   \<and> isDuplicateError PseudoElementUnique"
  by (simp add: method_defs firstExceeds_def isDuplicateError_def)

text \<open>
  Claim C5 (\<^verbatim>\<open>element\<close>, \<^verbatim>\<open>id\<close> or \<^verbatim>\<open>pseudoElement\<close> called when the part is already set
  raises the duplicate error; in particular \<^verbatim>\<open>element\<close> called twice raises it for
  every pair of argument strings). The code does not do so when the first
  argument is the empty string: the guard \<^verbatim>\<open>if (this.builder.element)\<close> reads the
  stored empty string as unset, so the second call of
  \<^verbatim>\<open>element('').element('div')\<close> reaches the order guard and throws
  \<^verbatim>\<open>Wrong order\<close>, which is not a duplicate error.
\<close>

theorem element_twice_empty_first:
  "thenCall (cssSelectorBuilder_element []) (element ''div'') = Inl WrongOrder
   \<and> \<not> isDuplicateError WrongOrder"
  by (simp add: method_defs isDuplicateError_def)

text \<open>
  Claim C9 (uniqueness is detected by the stored string being non-empty: after
  \<^verbatim>\<open>element('')\<close> a second \<^verbatim>\<open>element\<close> call fails with the order error, not the
  duplicate error; after \<^verbatim>\<open>id('')\<close> or \<^verbatim>\<open>pseudoElement('')\<close>, which store \<^verbatim>\<open>#\<close> and
  \<^verbatim>\<open>::\<close>, a repeated call fails with the duplicate error).
\<close>

theorem empty_name_edge_case:
  "(element [] this = Inr this1 \<longrightarrow> element v this1 = Inl WrongOrder)
   \<and> thenCall (cssSelectorBuilder_element []) (element v) = Inl WrongOrder
   \<and> (id_sel [] this = Inr this2 \<longrightarrow>
        b_id (builder this2) = ''#'' \<and> id_sel v this2 = Inl IdUnique)
   \<and> (pseudoElement [] this = Inr this3 \<longrightarrow>
        b_pseudoElement (builder this3) = ''::''
        \<and> pseudoElement v this3 = Inl PseudoElementUnique)
   \<and> (element v this = Inl ElementUnique) = (b_element (builder this) \<noteq> [])
   \<and> (id_sel v this = Inl IdUnique) = (b_id (builder this) \<noteq> [])
   \<and> (pseudoElement v this = Inl PseudoElementUnique) = (b_pseudoElement (builder this) \<noteq> [])
   \<and> isOrderError WrongOrder \<and> \<not> isDuplicateError WrongOrder
   \<and> isDuplicateError IdUnique \<and> isDuplicateError PseudoElementUnique"
  by (auto simp: element_def id_sel_def pseudoElement_def thenCall_def
      cssSelectorBuilder_element_def newSelector_def isDuplicateError_def isOrderError_def
      split: if_splits)

theorem empty_name_edge_case_witness:
  "element [] newSelector = Inr (projr (element [] newSelector))
   \<and> element ''div'' (projr (element [] newSelector)) = Inl WrongOrder
   \<and> id_sel [] newSelector = Inr (projr (id_sel [] newSelector))
   \<and> b_id (builder (projr (id_sel [] newSelector))) = ''#''
   \<and> id_sel ''main'' (projr (id_sel [] newSelector)) = Inl IdUnique
   \<and> pseudoElement [] newSelector = Inr (projr (pseudoElement [] newSelector))
   \<and> b_pseudoElement (builder (projr (pseudoElement [] newSelector))) = ''::''
   \<and> pseudoElement ''after'' (projr (pseudoElement [] newSelector)) = Inl PseudoElementUnique"
  using empty_name_edge_case
    [of newSelector "projr (element [] newSelector)" "''div''"
        "projr (id_sel [] newSelector)" "projr (pseudoElement [] newSelector)"]
    empty_name_edge_case
    [of newSelector "projr (element [] newSelector)" "''main''"
        "projr (id_sel [] newSelector)" "projr (pseudoElement [] newSelector)"]
    empty_name_edge_case
    [of newSelector "projr (element [] newSelector)" "''after''"
        "projr (id_sel [] newSelector)" "projr (pseudoElement [] newSelector)"]
  by (simp add: method_defs number_defs)


section \<open>The rectangle\<close>

text \<open>
  Claim C8 (the object returned by the rectangle constructor for \<open>w\<close> and \<open>h\<close> has
  width \<open>w\<close>, height \<open>h\<close>, and an area method that returns \<open>w\<close> multiplied by \<open>h\<close>).
\<close>

theorem Rectangle_properties:
  "width (Rectangle w h) = w \<and> height (Rectangle w h) = h \<and> getArea (Rectangle w h) () = w * h"
  by (simp add: Rectangle_def)

end
